theory Spec2Isabelle
  imports Main "HOL-Library.AList" "HOL-Library.Sublist"
begin

section \<open>Data model of \<^verbatim>\<open>pkg/api/service/config_service.go\<close>\<close>

text \<open>
  A Go \<^verbatim>\<open>map[string]T\<close> is an association list: a lookup is \<^const>\<open>map_of\<close>, a write
  \<^verbatim>\<open>m[k] = v\<close> is \<^const>\<open>AList.update\<close>, \<^verbatim>\<open>delete(m, k)\<close> is \<^const>\<open>AList.delete\<close>,
  and a \<^verbatim>\<open>range\<close> loop walks the entries in list order. Go fixes no iteration order; the
  theorems below hold for every list, hence for every order. A Go map has no duplicate
  keys, which appears as \<open>distinct (map fst m)\<close> where a statement needs it.
\<close>

type_synonym 'v gomap = "(string \<times> 'v) list"

text \<open>
  What \<^verbatim>\<open>yaml.Unmarshal\<close> puts behind an \<^verbatim>\<open>interface{}\<close>: nil, a scalar (bool, float64
  or string; the service never inspects it, so its type is the parameter \<open>'s\<close>), a
  slice or a \<^verbatim>\<open>map[string]interface{}\<close>.
\<close>

datatype 's yval =
    YNil
  | YScalar 's
  | YSeq "'s yval list"
  | YMap "(string \<times> 's yval) list"

text \<open>
  A variable of type \<^verbatim>\<open>map[string]interface{}\<close> holds a map or the nil map: \<open>None\<close> is the
  nil map, which \<^verbatim>\<open>yaml.Unmarshal\<close> leaves in its target for a text such as \<^verbatim>\<open>null\<close>, \<^verbatim>\<open>~\<close>
  or a comment alone. Reading the nil map and ranging over it behave as for the empty
  map; assigning to an entry of it panics. A map nested in a decoded value is never nil.
\<close>

type_synonym 's document = "'s yval gomap option"

definition entries :: "'v gomap option \<Rightarrow> 'v gomap" where
  "entries m = (case m of None \<Rightarrow> [] | Some es \<Rightarrow> es)"

datatype panic = NilPointerDereference | TypeAssertionFailed | AssignmentToNilMap

datatype kind = reflect_Map | reflect_Slice | reflect_Scalar

type_synonym error = string

text \<open>
  \<^verbatim>\<open>reflect.TypeOf(v).Kind()\<close>: \<^verbatim>\<open>reflect.TypeOf(nil)\<close> is the nil \<^verbatim>\<open>Type\<close>, and calling
  \<^verbatim>\<open>Kind()\<close> on it panics. The kinds of bool, float64 and string are one constructor:
  the code compares a kind with \<^verbatim>\<open>reflect.Map\<close> only.
\<close>

fun TypeOf_Kind :: "'s yval \<Rightarrow> panic + kind" where
  "TypeOf_Kind YNil = Inl NilPointerDereference"
| "TypeOf_Kind (YScalar s) = Inr reflect_Scalar"
| "TypeOf_Kind (YSeq xs) = Inr reflect_Slice"
| "TypeOf_Kind (YMap m) = Inr reflect_Map"

text \<open>Indexing a Go map: the zero value when the key is absent.\<close>

definition index :: "'s yval gomap \<Rightarrow> string \<Rightarrow> 's yval" where
  "index m k = (case map_of m k of None \<Rightarrow> YNil | Some v \<Rightarrow> v)"

definition indexString :: "string gomap \<Rightarrow> string \<Rightarrow> string" where
  "indexString m k = (case map_of m k of None \<Rightarrow> [] | Some v \<Rightarrow> v)"

text \<open>
  Modelled from the spec: \<^verbatim>\<open>utils.Contain\<close> is not among the sources; section 4.2 reads it
  as "key present in the existing mapping".
\<close>

definition Contain :: "'v gomap \<Rightarrow> string \<Rightarrow> bool" where
  "Contain m k = (map_of m k \<noteq> None)"

datatype updatePolicy = UpdatePolicyNot | UpdatePolicyAdd | UpdatePolicyCover

record SaveConfigDTO =
  Service :: string
  Version :: string
  Profile :: string
  Namespace :: string
  UpdatePolicy :: updatePolicy
  Yaml :: string

record ConfigMap =
  Data :: "string gomap"
  Annotations :: "string gomap"

text \<open>
  The interface \<^verbatim>\<open>k8s.ConfigMapOperator\<close> over a store state \<open>'st\<close>. A query returns the
  record or nil; create and update return the store afterwards and the error, if any
  (the record they also return is dropped by every caller).
\<close>

record 'st ConfigMapOperator =
  QueryConfigMapByName :: "'st \<Rightarrow> string \<Rightarrow> ConfigMap option"
  QueryConfigMap :: "'st \<Rightarrow> string \<Rightarrow> string \<Rightarrow> ConfigMap option"
  CreateConfigMap :: "'st \<Rightarrow> SaveConfigDTO \<Rightarrow> 'st \<times> error option"
  UpdateConfigMap :: "'st \<Rightarrow> SaveConfigDTO \<Rightarrow> 'st \<times> error option"

record 'st ConfigServiceImpl =
  validate :: "SaveConfigDTO \<Rightarrow> bool"
  configMapOperator :: "'st ConfigMapOperator"

text \<open>
  What the file takes from other packages and is not among the sources, as parameters:
  the constants of \<^verbatim>\<open>entity\<close>, the gateway names of \<^verbatim>\<open>embed.Env.ConfigServer\<close>, the two
  helpers of \<^verbatim>\<open>utils\<close>, and \<^verbatim>\<open>yaml.Unmarshal\<close> / \<^verbatim>\<open>yaml.Marshal\<close> (\<open>Inl\<close> is their error).
\<close>

record 's packages =
  ApiGatewayServiceName :: string
  RouteConfigMap :: string
  DefaultProfile :: string
  ChoerodonVersion :: string
  ConfigServerAdditions :: "'s yval gomap"
  GatewayNames :: "string list"
  ConfigMapProfileKey :: "string \<Rightarrow> string"
  ConvertRecursiveMapToSingleMap :: "'s document \<Rightarrow> 's yval gomap"
  Unmarshal :: "string \<Rightarrow> error + 's document"
  Marshal :: "'s document \<Rightarrow> error + string"

record 's PropertySource =
  PropertySourceName :: string
  Source :: "'s yval gomap"

record 's Environment =
  Name :: string
  EnvironmentVersion :: string
  Profiles :: "string list"
  PropertySources :: "'s PropertySource list"

text \<open>
  A \<^verbatim>\<open>restful.Response\<close> is the list of \<^verbatim>\<open>WriteErrorString(status, message)\<close> calls made
  on it, in order. A handler ends by returning or by panicking, with the store as it is
  at that moment. Logging and the metrics counter are left out.
\<close>

type_synonym response = "(nat \<times> string) list"

datatype 'st outcome =
    Returned 'st response
  | Panicked panic 'st response


section \<open>Merge engine\<close>

text \<open>
  The guard of line 235, evaluated left to right with Go's short-circuit \<^verbatim>\<open>&&\<close>:
  \<^verbatim>\<open>nv != nil && reflect.TypeOf(nv).Kind() == reflect.Map && ov != nil &&
  reflect.TypeOf(ov).Kind() == reflect.Map\<close>.
\<close>

definition bothMaps :: "'s yval \<Rightarrow> 's yval \<Rightarrow> panic + bool" where
  "bothMaps nv ov =
     (if nv = YNil then Inr False
      else (case TypeOf_Kind nv of
              Inl p \<Rightarrow> Inl p
            | Inr knv \<Rightarrow>
                if knv \<noteq> reflect_Map then Inr False
                else if ov = YNil then Inr False
                else (case TypeOf_Kind ov of
                        Inl p \<Rightarrow> Inl p
                      | Inr kov \<Rightarrow> Inr (kov = reflect_Map))))"

text \<open>
  \<^verbatim>\<open>recursiveAdd\<close> mutates \<^verbatim>\<open>oldMap\<close>; the model returns it. The second argument is what
  the \<^verbatim>\<open>range\<close> loop walks: the entries of \<^verbatim>\<open>newMap\<close>. Line 234 assigns to an entry of
  \<^verbatim>\<open>oldMap\<close>, which panics when \<^verbatim>\<open>oldMap\<close> is the nil map. The recursive call works on the
  nested map that \<^verbatim>\<open>oldMap[nk]\<close> refers to, which is not nil, so what it leaves there
  shows under \<^verbatim>\<open>nk\<close>. The two type assertions of line 236 panic on anything but a map.
\<close>

fun recursiveAdd :: "'s document \<Rightarrow> 's yval gomap \<Rightarrow> panic + 's document" where
  "recursiveAdd oldMap [] = Inr oldMap"
| "recursiveAdd oldMap ((nk, nv) # rest) =
     (let ov = index (entries oldMap) nk in
      if \<not> Contain (entries oldMap) nk then
        (case oldMap of
           None \<Rightarrow> Inl AssignmentToNilMap
         | Some m \<Rightarrow> recursiveAdd (Some (AList.update nk nv m)) rest)
      else case bothMaps nv ov of
        Inl p \<Rightarrow> Inl p
      | Inr False \<Rightarrow> recursiveAdd oldMap rest
      | Inr True \<Rightarrow>
          (case ov of
             YMap om \<Rightarrow>
               (case nv of
                  YMap nm \<Rightarrow>
                    (case recursiveAdd (Some om) nm of
                       Inl p \<Rightarrow> Inl p
                     | Inr om' \<Rightarrow>
                         recursiveAdd
                           (map_option (AList.update nk (YMap (entries om'))) oldMap) rest)
                | _ \<Rightarrow> Inl TypeAssertionFailed)
           | _ \<Rightarrow> Inl TypeAssertionFailed))"

text \<open>
  \<^verbatim>\<open>addProperty\<close> returns \<^verbatim>\<open>(string, error)\<close>: \<open>Inr (Inl err)\<close> is a non-nil error,
  \<open>Inr (Inr s)\<close> is \<^verbatim>\<open>(s, nil)\<close>. Line 220 returns \<^verbatim>\<open>"", nil\<close> when the old text does not
  decode.
\<close>

definition addProperty ::
  "'s packages \<Rightarrow> string \<Rightarrow> 's document \<Rightarrow> panic + (error + string)" where
  "addProperty P oldYaml newMap =
     (case Unmarshal P oldYaml of
        Inl err \<Rightarrow> Inr (Inr [])
      | Inr oldMap \<Rightarrow>
          (case recursiveAdd oldMap (entries newMap) of
             Inl p \<Rightarrow> Inl p
           | Inr merged \<Rightarrow>
               (case Marshal P merged of
                  Inl err \<Rightarrow> Inr (Inl err)
                | Inr data \<Rightarrow> Inr (Inr data))))"

section \<open>Route separator\<close>

text \<open>
  The inner loop of lines 246 to 251 walks the entries of \<^verbatim>\<open>vm\<close> and, at the key
  \<^verbatim>\<open>"routes"\<close>, copies the value into \<^verbatim>\<open>routeMap\<close> and deletes the key from \<^verbatim>\<open>vm\<close>.
\<close>

fun separateRoutes ::
  "'s yval gomap \<Rightarrow> 's yval gomap \<Rightarrow> 's yval gomap \<Rightarrow> 's yval gomap \<times> 's yval gomap" where
  "separateRoutes [] routeMap vm = (routeMap, vm)"
| "separateRoutes ((rk, rv) # rest) routeMap vm =
     (if rk = ''routes''
      then separateRoutes rest (AList.update rk rv routeMap) (AList.delete rk vm)
      else separateRoutes rest routeMap vm)"

text \<open>
  The outer loop of lines 243 to 253, over the entries of \<^verbatim>\<open>gateway\<close>. \<^verbatim>\<open>vm\<close> is the map
  \<^verbatim>\<open>gateway["zuul"]\<close> refers to, so the deletion shows in \<^verbatim>\<open>gateway\<close> under that key.
\<close>

fun separateLoop ::
  "'s yval gomap \<Rightarrow> 's yval gomap \<Rightarrow> 's document \<Rightarrow> panic + ('s yval gomap \<times> 's document)" where
  "separateLoop [] routeMap gateway = Inr (routeMap, gateway)"
| "separateLoop ((k, v) # rest) routeMap gateway =
     (if k = ''zuul'' then
        (case TypeOf_Kind v of
           Inl p \<Rightarrow> Inl p
         | Inr kd \<Rightarrow>
             if kd = reflect_Map then
               (case v of
                  YMap vm \<Rightarrow>
                    (case separateRoutes vm routeMap vm of
                       (routeMap', vm') \<Rightarrow>
                         separateLoop rest routeMap'
                           (map_option (AList.update k (YMap vm')) gateway))
                | _ \<Rightarrow> Inl TypeAssertionFailed)
             else separateLoop rest routeMap gateway)
      else separateLoop rest routeMap gateway)"

text \<open>
  \<^verbatim>\<open>separateRoute\<close> returns, besides the Go results \<^verbatim>\<open>(gb, rb, rm, err)\<close>, the \<^verbatim>\<open>gateway\<close>
  map as the loop left it, since the caller goes on using that map. \<^verbatim>\<open>routeMap\<close> and \<^verbatim>\<open>rm\<close>
  are made by the function, so they are not nil.
\<close>

definition separateRoute ::
  "'s packages \<Rightarrow> 's document \<Rightarrow>
     panic + ('s document \<times> (error + (string \<times> string \<times> 's document)))" where
  "separateRoute P gateway =
     (case separateLoop (entries gateway) [] gateway of
        Inl p \<Rightarrow> Inl p
      | Inr (routeMap, gateway') \<Rightarrow>
          Inr (gateway',
            (case Marshal P gateway' of
               Inl err \<Rightarrow> Inl err
             | Inr gb \<Rightarrow>
                 (let rm = Some [(''zuul'', YMap routeMap)] in
                  case Marshal P rm of
                    Inl err \<Rightarrow> Inl err
                  | Inr rb \<Rightarrow> Inr (gb, rb, rm)))))"

section \<open>Update-policy resolver and save\<close>

text \<open>Lines 115 to 122.\<close>

definition updateStep ::
  "'st ConfigServiceImpl \<Rightarrow> 'st \<Rightarrow> SaveConfigDTO \<Rightarrow> response \<Rightarrow> 'st outcome" where
  "updateStep es st dto resp =
     (if UpdatePolicy dto \<noteq> UpdatePolicyNot then
        (case UpdateConfigMap (configMapOperator es) st dto of
           (st', Some err) \<Rightarrow> Returned st' (resp @ [(500, ''update configMap failed'')])
         | (st', None) \<Rightarrow> Returned st' resp)
      else Returned st resp)"

text \<open>
  Lines 102 to 114, then the update. \<^verbatim>\<open>queryConfigMap\<close> is a pointer to a record;
  reading \<^verbatim>\<open>queryConfigMap.Data\<close> through nil panics.
\<close>

definition mergeStep ::
  "'st ConfigServiceImpl \<Rightarrow> 's packages \<Rightarrow> 'st \<Rightarrow> ConfigMap option \<Rightarrow> SaveConfigDTO \<Rightarrow>
     's document \<Rightarrow> response \<Rightarrow> 'st outcome" where
  "mergeStep es P st queryConfigMap dto source resp =
     (if UpdatePolicy dto = UpdatePolicyAdd then
        (let profileKey = ConfigMapProfileKey P (Profile dto) in
         case queryConfigMap of
           None \<Rightarrow> Panicked NilPointerDereference st resp
         | Some cm \<Rightarrow>
             (let oldYaml = indexString (Data cm) profileKey in
              if oldYaml \<noteq> [] then
                (case addProperty P oldYaml source of
                   Inl p \<Rightarrow> Panicked p st resp
                 | Inr (Inl err) \<Rightarrow> Returned st (resp @ [(500, ''merge yaml failed'')])
                 | Inr (Inr newYaml) \<Rightarrow> updateStep es st (dto\<lparr>Yaml := newYaml\<rparr>) resp)
              else updateStep es st dto resp))
      else updateStep es st dto resp)"

definition createOrUpdateConfigMap ::
  "'st ConfigServiceImpl \<Rightarrow> 's packages \<Rightarrow> 'st \<Rightarrow> SaveConfigDTO \<Rightarrow> 's document \<Rightarrow>
     response \<Rightarrow> 'st outcome" where
  "createOrUpdateConfigMap es P st dto source resp =
     (let queryConfigMap = QueryConfigMap (configMapOperator es) st (Service dto) (Namespace dto) in
      case (if queryConfigMap = None then CreateConfigMap (configMapOperator es) st dto
            else (st, None)) of
        (st', Some err) \<Rightarrow> Returned st' (resp @ [(500, ''create configMap failed'')])
      | (st', None) \<Rightarrow>
          if queryConfigMap \<noteq> None \<and> UpdatePolicy dto = UpdatePolicyNot
          then Returned st' (resp @ [(304, ''configMap is already exist'')])
          else mergeStep es P st' queryConfigMap dto source resp)"

text \<open>
  \<^verbatim>\<open>Save\<close>: the request is the body as \<^verbatim>\<open>ReadEntity\<close> decodes it (\<open>None\<close> when that fails);
  the response starts empty.
\<close>

definition Save ::
  "'st ConfigServiceImpl \<Rightarrow> 's packages \<Rightarrow> 'st \<Rightarrow> SaveConfigDTO option \<Rightarrow> 'st outcome" where
  "Save es P st request =
     (case request of
        None \<Rightarrow> Returned st [(400, ''invalid saveConfigDTO'')]
      | Some dto \<Rightarrow>
          if \<not> validate es dto then Returned st [(400, ''invalid saveConfigDTO'')]
          else
            (case Unmarshal P (Yaml dto) of
               Inl err \<Rightarrow> Returned st [(400, ''invalid yaml'')]
             | Inr source \<Rightarrow>
                 if Service dto = ApiGatewayServiceName P then
                   (case separateRoute P source of
                      Inl p \<Rightarrow> Panicked p st []
                    | Inr (source', Inl err) \<Rightarrow> Returned st [(500, ''separateRoute error'')]
                    | Inr (source', Inr (gb, rb, rm)) \<Rightarrow>
                        (let routeDTO =
                               \<lparr>Service = RouteConfigMap P, Version = Version dto,
                                Profile = DefaultProfile P, Namespace = Namespace dto,
                                UpdatePolicy = UpdatePolicy dto, Yaml = rb\<rparr> in
                         case createOrUpdateConfigMap es P st routeDTO rm [] of
                           Panicked p st' resp \<Rightarrow> Panicked p st' resp
                         | Returned st' resp \<Rightarrow>
                             createOrUpdateConfigMap es P st' (dto\<lparr>Yaml := gb\<rparr>) source' resp))
                 else createOrUpdateConfigMap es P st dto source []))"

section \<open>Poll assembler\<close>

fun containsName :: "string list \<Rightarrow> string \<Rightarrow> bool" where
  "containsName [] service = False"
| "containsName (v # rest) service = (if v = service then True else containsName rest service)"

definition isGateway :: "'s packages \<Rightarrow> string \<Rightarrow> bool" where
  "isGateway P service = containsName (GatewayNames P) service"

definition getConfigFromConfigMap ::
  "'st ConfigServiceImpl \<Rightarrow> 's packages \<Rightarrow> 'st \<Rightarrow> string \<Rightarrow> string \<Rightarrow>
     error + ('s yval gomap \<times> string)" where
  "getConfigFromConfigMap es P st service version =
     (case QueryConfigMapByName (configMapOperator es) st service of
        None \<Rightarrow> Inl ''can't find configMap''
      | Some configMap \<Rightarrow>
          (let application = ''application''
                 @ (if version \<noteq> DefaultProfile P then ''-'' @ version else []) @ ''.yml'';
               yamlString = indexString (Data configMap) application in
           case (if yamlString \<noteq> [] then Unmarshal P yamlString else Inr (Some [])) of
             Inl err \<Rightarrow> Inl err
           | Inr source \<Rightarrow>
               Inr (ConvertRecursiveMapToSingleMap P source,
                    indexString (Annotations configMap) (ChoerodonVersion P))))"

text \<open>Lines 151 to 155: the loop over the entries of \<^verbatim>\<open>kvMap\<close>, deleting from it.\<close>

fun deleteRoutes :: "'s yval gomap \<Rightarrow> 's yval gomap \<Rightarrow> 's yval gomap" where
  "deleteRoutes [] kvMap = kvMap"
| "deleteRoutes ((k, v) # rest) kvMap =
     (if prefix ''zuul.routes.'' k then deleteRoutes rest (AList.delete k kvMap)
      else deleteRoutes rest kvMap)"

text \<open>
  Lines 156 to 158, and the same loop in \<^verbatim>\<open>appendConfigServerAddition\<close>: every entry of
  the first map is written into \<^verbatim>\<open>kvMap\<close>.
\<close>

fun putAll :: "'s yval gomap \<Rightarrow> 's yval gomap \<Rightarrow> 's yval gomap" where
  "putAll [] kvMap = kvMap"
| "putAll ((k, v) # rest) kvMap = putAll rest (AList.update k v kvMap)"

definition gatewayOverlay :: "'s yval gomap \<Rightarrow> 's yval gomap \<Rightarrow> 's yval gomap" where
  "gatewayOverlay kvMap routeMap = putAll routeMap (deleteRoutes kvMap kvMap)"

definition appendConfigServerAddition :: "'s packages \<Rightarrow> 's yval gomap \<Rightarrow> 's yval gomap" where
  "appendConfigServerAddition P kvMap = putAll (ConfigServerAdditions P) kvMap"

text \<open>
  \<^verbatim>\<open>Poll\<close> writes to its response once: an error string (\<open>Inl\<close>) or the environment as
  JSON (\<open>Inr\<close>).
\<close>

definition Poll ::
  "'st ConfigServiceImpl \<Rightarrow> 's packages \<Rightarrow> 'st \<Rightarrow> string \<Rightarrow> string \<Rightarrow>
     (nat \<times> string) + 's Environment" where
  "Poll es P st service version =
     (if service = [] then Inl (400, ''service is empty'')
      else if version = [] then Inl (400, ''version is empty'')
      else case getConfigFromConfigMap es P st service version of
        Inl err \<Rightarrow> Inl (404, ''can't find correct configMap'')
      | Inr (kvMap, configMapVersion) \<Rightarrow>
          (case (if isGateway P service then
                   (case getConfigFromConfigMap es P st (RouteConfigMap P) version of
                      Inl err \<Rightarrow> Inl (404, ''can't find zuul-route configMap'')
                    | Inr (routeMap, routeVersion) \<Rightarrow> Inr (gatewayOverlay kvMap routeMap))
                 else Inr kvMap) of
             Inl w \<Rightarrow> Inl w
           | Inr kvMap' \<Rightarrow>
               Inr \<lparr>Name = service, EnvironmentVersion = configMapVersion,
                    Profiles = [version],
                    PropertySources =
                      [\<lparr>PropertySourceName = service @ ''-'' @ version @ ''-'' @ configMapVersion,
                        Source = appendConfigServerAddition P kvMap'\<rparr>]\<rparr>))"

section \<open>Collaborators for concrete runs\<close>

text \<open>
  Modelled from the spec: the store behind \<^verbatim>\<open>k8s.ConfigMapOperator\<close> is not among the
  sources. Section 6 gives it as records keyed by service name and namespace, each with a
  \<open>data\<close> mapping from profile-key to YAML text and an \<open>annotations\<close> mapping;
  \<open>createRecord\<close> adds the record of a document, \<open>updateRecord\<close> replaces the text under
  the document's profile-key, \<open>queryRecordByName\<close> looks a record up by name in any
  namespace. The spec does not say which annotations a new record gets: none here.
\<close>

type_synonym memStore = "((string \<times> string) \<times> ConfigMap) list"

definition memQueryConfigMap :: "memStore \<Rightarrow> string \<Rightarrow> string \<Rightarrow> ConfigMap option" where
  "memQueryConfigMap st name namespace = map_of st (name, namespace)"

fun memQueryConfigMapByName :: "memStore \<Rightarrow> string \<Rightarrow> ConfigMap option" where
  "memQueryConfigMapByName [] name = None"
| "memQueryConfigMapByName (((n, namespace), cm) # rest) name =
     (if n = name then Some cm else memQueryConfigMapByName rest name)"

definition memCreateConfigMap ::
  "(string \<Rightarrow> string) \<Rightarrow> memStore \<Rightarrow> SaveConfigDTO \<Rightarrow> memStore \<times> error option" where
  "memCreateConfigMap key st dto =
     (case map_of st (Service dto, Namespace dto) of
        Some cm \<Rightarrow> (st, Some ''already exists'')
      | None \<Rightarrow>
          (AList.update (Service dto, Namespace dto)
             \<lparr>Data = [(key (Profile dto), Yaml dto)], Annotations = []\<rparr> st, None))"

definition memUpdateConfigMap ::
  "(string \<Rightarrow> string) \<Rightarrow> memStore \<Rightarrow> SaveConfigDTO \<Rightarrow> memStore \<times> error option" where
  "memUpdateConfigMap key st dto =
     (case map_of st (Service dto, Namespace dto) of
        None \<Rightarrow> (st, Some ''not found'')
      | Some cm \<Rightarrow>
          (AList.update (Service dto, Namespace dto)
             (cm\<lparr>Data := AList.update (key (Profile dto)) (Yaml dto) (Data cm)\<rparr>) st, None))"

definition memOperator :: "(string \<Rightarrow> string) \<Rightarrow> memStore ConfigMapOperator" where
  "memOperator key =
     \<lparr>QueryConfigMapByName = memQueryConfigMapByName,
      QueryConfigMap = memQueryConfigMap,
      CreateConfigMap = memCreateConfigMap key,
      UpdateConfigMap = memUpdateConfigMap key\<rparr>"


text \<open>
  Modelled from the spec: \<^verbatim>\<open>utils.ConfigMapProfileKey\<close> is not among the sources. Section
  4.5, step 2, gives the profile-key; it is spelled here as lines 191 to 195 spell it.
\<close>

definition profileKey :: "string \<Rightarrow> string \<Rightarrow> string" where
  "profileKey defaultProfile profile =
     ''application'' @ (if profile \<noteq> defaultProfile then ''-'' @ profile else []) @ ''.yml''"

text \<open>
  Modelled from the spec: \<^verbatim>\<open>utils.ConvertRecursiveMapToSingleMap\<close> is not among the
  sources. Section 4.1: keys are joined with a dot, a sequence element takes its
  zero-based index as a path segment, an empty nested mapping gives no entry, everything
  else is a leaf.
\<close>

fun decimal :: "nat \<Rightarrow> string" where
  "decimal n =
     (if n < 10 then [char_of (48 + n)]
      else decimal (n div 10) @ [char_of (48 + n mod 10)])"

fun flattenValue :: "string \<Rightarrow> 's yval \<Rightarrow> 's yval gomap"
  and flattenMap :: "string \<Rightarrow> 's yval gomap \<Rightarrow> 's yval gomap"
  and flattenSeq :: "string \<Rightarrow> nat \<Rightarrow> 's yval list \<Rightarrow> 's yval gomap" where
  "flattenValue path (YMap m) = flattenMap (path @ ''.'') m"
| "flattenValue path (YSeq xs) = flattenSeq (path @ ''.'') 0 xs"
| "flattenValue path (YScalar s) = [(path, YScalar s)]"
| "flattenValue path YNil = [(path, YNil)]"
| "flattenMap pre [] = []"
| "flattenMap pre ((k, v) # rest) = flattenValue (pre @ k) v @ flattenMap pre rest"
| "flattenSeq pre i [] = []"
| "flattenSeq pre i (x # xs) = flattenValue (pre @ decimal i) x @ flattenSeq pre (Suc i) xs"

definition flatten :: "'s document \<Rightarrow> 's yval gomap" where
  "flatten nested = flattenMap [] (entries nested)"

text \<open>
  A YAML library for concrete runs: a finite table of texts and the documents they
  decode to. A text outside the table does not decode, a document outside it does not
  encode.
\<close>

definition tableUnmarshal ::
  "(string \<times> 's document) list \<Rightarrow> string \<Rightarrow> error + 's document" where
  "tableUnmarshal table yamlText =
     (case map_of table yamlText of
        None \<Rightarrow> Inl ''yaml: cannot unmarshal''
      | Some document \<Rightarrow> Inr document)"

definition tableMarshal ::
  "(string \<times> 's document) list \<Rightarrow> 's document \<Rightarrow> error + string" where
  "tableMarshal table document =
     (case find (\<lambda>entry. snd entry = document) table of
        None \<Rightarrow> Inl ''yaml: cannot marshal''
      | Some entry \<Rightarrow> Inr (fst entry))"

definition exampleService :: "memStore ConfigServiceImpl" where
  "exampleService =
     \<lparr>validate = (\<lambda>dto. Service dto \<noteq> [] \<and> Version dto \<noteq> [] \<and> Namespace dto \<noteq> []),
      configMapOperator = memOperator (profileKey ''default'')\<rparr>"

definition exampleTable :: "(string \<times> string document) list" where
  "exampleTable =
     [(''zuul: {routes: {r1: /foo}, other: keep}'',
         Some [(''zuul'', YMap [(''routes'', YMap [(''r1'', YScalar ''/foo'')]),
                                (''other'', YScalar ''keep'')])]),
      (''zuul: {other: keep}'', Some [(''zuul'', YMap [(''other'', YScalar ''keep'')])]),
      (''zuul: {routes: {r1: /foo}}'',
         Some [(''zuul'', YMap [(''routes'', YMap [(''r1'', YScalar ''/foo'')])])]),
      (''zuul: {}'', Some [(''zuul'', YMap [])]),
      (''zuul:'', Some [(''zuul'', YNil)]),
      (''{zuul: {routes: {a: 1}}, port: 8080}'',
         Some [(''zuul'', YMap [(''routes'', YMap [(''a'', YScalar ''1'')])]),
               (''port'', YScalar ''8080'')]),
      (''zuul: {routes: {b: 2}}'',
         Some [(''zuul'', YMap [(''routes'', YMap [(''b'', YScalar ''2'')])])]),
      (''zuul: {routes: {b: 3}}'',
         Some [(''zuul'', YMap [(''routes'', YMap [(''b'', YScalar ''3'')])])]),
      (''a: {x: 1}'', Some [(''a'', YMap [(''x'', YScalar ''1'')])]),
      (''a: {y: 2}'', Some [(''a'', YMap [(''y'', YScalar ''2'')])]),
      (''a: {x: 1, y: 2}'',
         Some [(''a'', YMap [(''x'', YScalar ''1''), (''y'', YScalar ''2'')])]),
      (''null'', None)]"

definition examplePackages :: "string packages" where
  "examplePackages =
     \<lparr>ApiGatewayServiceName = ''api-gateway'',
      RouteConfigMap = ''zuul-route'',
      DefaultProfile = ''default'',
      ChoerodonVersion = ''choerodon_version'',
      ConfigServerAdditions = [(''spring.cloud.config.failFast'', YScalar ''true'')],
      GatewayNames = [''api-gateway'', ''gateway-helper''],
      ConfigMapProfileKey = profileKey ''default'',
      ConvertRecursiveMapToSingleMap = flatten,
      Unmarshal = tableUnmarshal exampleTable,
      Marshal = tableMarshal exampleTable\<rparr>"

definition exampleDTO :: "string \<Rightarrow> updatePolicy \<Rightarrow> string \<Rightarrow> SaveConfigDTO" where
  "exampleDTO service policy yamlText =
     \<lparr>Service = service, Version = ''1.0'', Profile = ''default'', Namespace = ''ns'',
      UpdatePolicy = policy, Yaml = yamlText\<rparr>"

definition exampleRecord :: "string \<Rightarrow> ConfigMap" where
  "exampleRecord yamlText =
     \<lparr>Data = [(''application.yml'', yamlText)], Annotations = [(''choerodon_version'', ''1.0'')]\<rparr>"


section \<open>Facts about the merge engine\<close>

lemmas example_defs =
  exampleService_def examplePackages_def exampleTable_def exampleDTO_def exampleRecord_def
  tableUnmarshal_def tableMarshal_def memOperator_def memQueryConfigMap_def
  memCreateConfigMap_def memUpdateConfigMap_def profileKey_def flatten_def entries_def

lemmas service_defs =
  Save_def createOrUpdateConfigMap_def mergeStep_def updateStep_def addProperty_def
  separateRoute_def Contain_def index_def indexString_def bothMaps_def Poll_def
  getConfigFromConfigMap_def isGateway_def gatewayOverlay_def appendConfigServerAddition_def

lemma bothMaps_total: "\<exists>b. bothMaps nv ov = Inr b"
  by (cases nv; cases ov) (auto simp add: bothMaps_def)

lemma bothMaps_True: "bothMaps nv ov = Inr True \<longleftrightarrow> (\<exists>nm om. nv = YMap nm \<and> ov = YMap om)"
  by (cases nv; cases ov) (simp_all add: bothMaps_def)

lemma bothMaps_YMap: "bothMaps (YMap nm) (YMap om) = Inr True"
  by (simp add: bothMaps_def)

lemma bothMaps_False:
  "\<not> (\<exists>nm om. nv = YMap nm \<and> ov = YMap om) \<Longrightarrow> bothMaps nv ov = Inr False"
  using bothMaps_total [of nv ov] bothMaps_True [of nv ov] by auto

text \<open>The ways one entry of \<^verbatim>\<open>newMap\<close> is handled.\<close>

lemma recursiveAdd_nil:
  "recursiveAdd None ((nk, nv) # rest) = Inl AssignmentToNilMap"
  by (simp add: Contain_def entries_def)

lemma recursiveAdd_absent:
  "map_of oldMap nk = None \<Longrightarrow>
   recursiveAdd (Some oldMap) ((nk, nv) # rest) =
     recursiveAdd (Some (AList.update nk nv oldMap)) rest"
  by (simp add: Contain_def entries_def)

lemma recursiveAdd_maps:
  "map_of oldMap nk = Some (YMap om) \<Longrightarrow>
   recursiveAdd (Some oldMap) ((nk, YMap nm) # rest) =
     (case recursiveAdd (Some om) nm of
        Inl p \<Rightarrow> Inl p
      | Inr om' \<Rightarrow> recursiveAdd (Some (AList.update nk (YMap (entries om')) oldMap)) rest)"
  by (simp add: Contain_def index_def entries_def bothMaps_YMap split: sum.splits)

lemma recursiveAdd_keep:
  "map_of oldMap nk = Some ov \<Longrightarrow> \<not> (\<exists>nm om. nv = YMap nm \<and> ov = YMap om) \<Longrightarrow>
   recursiveAdd (Some oldMap) ((nk, nv) # rest) = recursiveAdd (Some oldMap) rest"
  using bothMaps_False [of nv ov] by (simp add: Contain_def index_def entries_def)

declare recursiveAdd.simps(2) [simp del]

text \<open>On a map that is not nil the merge returns, with a map that is not nil.\<close>

lemma recursiveAdd_total: "\<exists>r. recursiveAdd (Some oldMap) newMap = Inr (Some r)"
proof (induction "Some oldMap" newMap arbitrary: oldMap rule: recursiveAdd.induct)
  case 1
  then show ?case by simp
next
  case (2 nk nv rest)
  have e: "entries (Some oldMap) = oldMap" by (simp add: entries_def)
  show ?case
  proof (cases "map_of oldMap nk")
    case None
    then have "\<not> Contain (entries (Some oldMap)) nk" by (simp add: Contain_def e)
    from 2(1) [OF refl this refl] None show ?thesis
      by (simp add: recursiveAdd_absent)
  next
    case (Some ov)
    then have c: "\<not> \<not> Contain (entries (Some oldMap)) nk"
      and i: "index (entries (Some oldMap)) nk = ov"
      by (simp_all add: Contain_def index_def e)
    show ?thesis
    proof (cases "\<exists>nm om. nv = YMap nm \<and> ov = YMap om")
      case False
      then have b: "bothMaps nv (index (entries (Some oldMap)) nk) = Inr False"
        using bothMaps_False i by blast
      from 2(4) [OF refl c b refl] recursiveAdd_keep [OF Some False]
      show ?thesis by simp
    next
      case True
      then obtain nm om where nv: "nv = YMap nm" and ov: "ov = YMap om" by blast
      have b: "bothMaps nv (index (entries (Some oldMap)) nk) = Inr True"
        by (simp add: nv ov i bothMaps_YMap)
      from 2(2) [OF refl c b refl _ nv, of om] i ov
      obtain om' where om': "recursiveAdd (Some om) nm = Inr (Some om')" by auto
      from 2(3) [OF refl c b refl _ nv om', of "AList.update nk (YMap om') oldMap"] i ov
      obtain r where "recursiveAdd (Some (AList.update nk (YMap om') oldMap)) rest = Inr (Some r)"
        by (auto simp add: entries_def)
      with recursiveAdd_maps [of oldMap nk om nm rest] Some ov nv om'
      show ?thesis by (simp add: entries_def)
    qed
  qed
qed

text \<open>
  What the merged map holds under each key, when the existing map is not nil and
  \<^verbatim>\<open>newMap\<close> has no key twice: the loop is gone from the right-hand side.
\<close>

lemma recursiveAdd_lookup:
  "distinct (map fst newMap) \<Longrightarrow> recursiveAdd (Some oldMap) newMap = Inr (Some r) \<Longrightarrow>
   map_of r k =
     (case map_of newMap k of
        None \<Rightarrow> map_of oldMap k
      | Some nv \<Rightarrow>
          (case map_of oldMap k of
             None \<Rightarrow> Some nv
           | Some (YMap om) \<Rightarrow>
               (case nv of
                  YMap nm \<Rightarrow>
                    (case recursiveAdd (Some om) nm of
                       Inr (Some om') \<Rightarrow> Some (YMap om')
                     | _ \<Rightarrow> None)
                | _ \<Rightarrow> Some (YMap om))
           | Some ov \<Rightarrow> Some ov))"
proof (induction "Some oldMap" newMap arbitrary: oldMap r rule: recursiveAdd.induct)
  case 1
  then show ?case by simp
next
  case (2 nk nv rest)
  have e: "entries (Some oldMap) = oldMap" by (simp add: entries_def)
  from 2(5) have d: "distinct (map fst rest)" and fresh: "map_of rest nk = None"
    by (simp_all add: map_of_eq_None_iff)
  show ?case
  proof (cases "map_of oldMap nk")
    case None
    then have c: "\<not> Contain (entries (Some oldMap)) nk" by (simp add: Contain_def e)
    from 2(6) None have "recursiveAdd (Some (AList.update nk nv oldMap)) rest = Inr (Some r)"
      by (simp add: recursiveAdd_absent)
    from 2(1) [OF refl c refl d this]
    show ?thesis using None fresh
      by (auto simp add: update_conv' split: option.splits)
  next
    case (Some ov)
    then have c: "\<not> \<not> Contain (entries (Some oldMap)) nk"
      and i: "index (entries (Some oldMap)) nk = ov"
      by (simp_all add: Contain_def index_def e)
    show ?thesis
    proof (cases "\<exists>nm om. nv = YMap nm \<and> ov = YMap om")
      case False
      then have b: "bothMaps nv (index (entries (Some oldMap)) nk) = Inr False"
        using bothMaps_False i by blast
      from 2(6) have "recursiveAdd (Some oldMap) rest = Inr (Some r)"
        by (simp add: recursiveAdd_keep [OF Some False])
      from 2(4) [OF refl c b refl d this]
      show ?thesis using Some fresh False
        by (auto split: option.splits yval.splits)
    next
      case True
      then obtain nm om where nv: "nv = YMap nm" and ov: "ov = YMap om" by blast
      have b: "bothMaps nv (index (entries (Some oldMap)) nk) = Inr True"
        by (simp add: nv ov i bothMaps_YMap)
      obtain om' where om': "recursiveAdd (Some om) nm = Inr (Some om')"
        using recursiveAdd_total by blast
      from 2(6) have "recursiveAdd (Some (AList.update nk (YMap om') oldMap)) rest = Inr (Some r)"
        using recursiveAdd_maps [of oldMap nk om nm rest] Some ov nv om'
        by (simp add: entries_def)
      from 2(3) [OF refl c b refl _ nv om' _ d, of "AList.update nk (YMap om') oldMap" r] this i ov
      show ?thesis using Some fresh ov nv om'
        by (auto simp add: update_conv' entries_def split: option.splits yval.splits)
    qed
  qed
qed

text \<open>
  The merge additive law on an existing map that is not nil, for an incoming map without
  duplicate keys: the merge returns; a key of \<open>E\<close> whose value is not a nested mapping (a
  scalar, a sequence, also nil) keeps its value; a key of \<open>N\<close> absent from \<open>E\<close> is bound
  to its value in \<open>N\<close>, nested structure included; and a key bound to nested mappings on
  both sides is bound to the merge of the two sub-mappings.
\<close>

lemma recursiveAdd_additive:
  assumes "distinct (map fst N)"
  shows "\<exists>R. recursiveAdd (Some E) N = Inr (Some R)
    \<and> (\<forall>k v. map_of E k = Some v \<and> (\<forall>m. v \<noteq> YMap m) \<longrightarrow> map_of R k = Some v)
    \<and> (\<forall>k v. map_of E k = None \<and> map_of N k = Some v \<longrightarrow> map_of R k = Some v)
    \<and> (\<forall>k e n. map_of E k = Some (YMap e) \<and> map_of N k = Some (YMap n) \<longrightarrow>
          (\<exists>r. recursiveAdd (Some e) n = Inr (Some r) \<and> map_of R k = Some (YMap r)))"
proof -
  obtain R where R: "recursiveAdd (Some E) N = Inr (Some R)"
    using recursiveAdd_total by blast
  note look = recursiveAdd_lookup [OF assms R]
  have keep: "map_of R k = Some v" if "map_of E k = Some v" "\<forall>m. v \<noteq> YMap m" for k v
    using that look [of k] by (cases v) (auto split: option.splits)
  have new: "map_of R k = Some v" if "map_of E k = None" "map_of N k = Some v" for k v
    using that look [of k] by simp
  have deep: "\<exists>r. recursiveAdd (Some e) n = Inr (Some r) \<and> map_of R k = Some (YMap r)"
    if "map_of E k = Some (YMap e)" "map_of N k = Some (YMap n)" for k e n
  proof -
    obtain r where r: "recursiveAdd (Some e) n = Inr (Some r)"
      using recursiveAdd_total by blast
    with that look [of k] show ?thesis by simp
  qed
  from R keep new deep show ?thesis by blast
qed

lemma recursiveAdd_additive_example:
  "recursiveAdd (Some [(''a'', YMap [(''x'', YScalar ''1'')]), (''b'', YScalar ''5'')])
     [(''a'', YMap [(''y'', YScalar ''2'')]), (''b'', YScalar ''7''),
      (''c'', YSeq [YScalar ''3''])]
   = Inr (Some [(''a'', YMap [(''x'', YScalar ''1''), (''y'', YScalar ''2'')]),
                (''b'', YScalar (''5'' :: string)), (''c'', YSeq [YScalar ''3''])])"
  by (simp add: recursiveAdd.simps Contain_def index_def entries_def bothMaps_def)

text \<open>
  C2. The additive law does not hold on every existing map: when the stored text decodes
  to the nil map (\<^verbatim>\<open>null\<close>, \<^verbatim>\<open>~\<close>, a comment alone), the first incoming key reaches the
  assignment of line 234 on the nil map, so \<^verbatim>\<open>recursiveAdd\<close> panics, \<^verbatim>\<open>addProperty\<close> with it,
  and a save under the merge policy panics with nothing written to the store or to the
  response, where the law has the key inserted. On a map that is not nil the law holds
  (\<open>recursiveAdd_additive\<close>).
\<close>

theorem recursiveAdd_nil_map_panics:
  assumes "QueryConfigMap (configMapOperator es) st (Service dto) (Namespace dto) = Some cm"
    and "UpdatePolicy dto = UpdatePolicyAdd"
    and "indexString (Data cm) (ConfigMapProfileKey P (Profile dto)) = oldYaml"
    and "oldYaml \<noteq> []"
    and "Unmarshal P oldYaml = Inr None"
    and "entries source = (nk, nv) # rest"
  shows "recursiveAdd None (entries source) = Inl AssignmentToNilMap
    \<and> addProperty P oldYaml source = Inl AssignmentToNilMap
    \<and> createOrUpdateConfigMap es P st dto source resp = Panicked AssignmentToNilMap st resp"
  using assms
  by (simp add: createOrUpdateConfigMap_def mergeStep_def addProperty_def recursiveAdd_nil)

theorem recursiveAdd_nil_map_panics_witness:
  "recursiveAdd None [(''a'', YMap [(''y'', YScalar (''2'' :: string))])] = Inl AssignmentToNilMap
   \<and> Save exampleService examplePackages [] (Some (exampleDTO ''svc'' UpdatePolicyCover ''null''))
     = Returned [((''svc'', ''ns''), \<lparr>Data = [(''application.yml'', ''null'')], Annotations = []\<rparr>)] []
   \<and> Save exampleService examplePackages
       [((''svc'', ''ns''), \<lparr>Data = [(''application.yml'', ''null'')], Annotations = []\<rparr>)]
       (Some (exampleDTO ''svc'' UpdatePolicyAdd ''a: {y: 2}''))
     = Panicked AssignmentToNilMap
         [((''svc'', ''ns''), \<lparr>Data = [(''application.yml'', ''null'')], Annotations = []\<rparr>)] []"
proof -
  let ?dto = "exampleDTO ''svc'' UpdatePolicyAdd ''a: {y: 2}''"
  let ?cm = "\<lparr>Data = [(''application.yml'', ''null'')], Annotations = []\<rparr>"
  let ?st = "[((''svc'', ''ns''), ?cm)]"
  let ?src = "Some [(''a'', YMap [(''y'', YScalar (''2'' :: string))])]"
  have "QueryConfigMap (configMapOperator exampleService) ?st (Service ?dto) (Namespace ?dto)
          = Some ?cm"
    and "UpdatePolicy ?dto = UpdatePolicyAdd"
    and "indexString (Data ?cm) (ConfigMapProfileKey examplePackages (Profile ?dto)) = ''null''"
    and "''null'' \<noteq> []"
    and "Unmarshal examplePackages ''null'' = Inr None"
    and "entries ?src = (''a'', YMap [(''y'', YScalar ''2'')]) # []"
    by (simp_all add: example_defs indexString_def)
  note panics = recursiveAdd_nil_map_panics [OF this, of "[]"]
  have first: "Save exampleService examplePackages []
      (Some (exampleDTO ''svc'' UpdatePolicyCover ''null'')) = Returned ?st []"
    by (simp add: example_defs Save_def createOrUpdateConfigMap_def mergeStep_def updateStep_def)
  have "Save exampleService examplePackages ?st (Some ?dto)
      = createOrUpdateConfigMap exampleService examplePackages ?st ?dto ?src []"
    by (simp add: Save_def exampleService_def examplePackages_def exampleTable_def
        exampleDTO_def tableUnmarshal_def)
  with panics first show ?thesis by (simp add: entries_def)
qed

text \<open>
  C9. A nil value on either side of a key present in both maps does not crash the merge:
  line 235 tests for nil before it asks for the kind, so \<^verbatim>\<open>recursiveAdd\<close> returns, and
  the key keeps the value it had in the existing map (the incoming one is dropped).
\<close>

theorem recursiveAdd_nil_discarded:
  assumes "distinct (map fst N)"
    and "map_of E k = Some ov"
    and "map_of N k = Some nv"
    and "ov = YNil \<or> nv = YNil"
  shows "\<exists>R. recursiveAdd (Some E) N = Inr (Some R) \<and> map_of R k = Some ov"
proof -
  obtain R where R: "recursiveAdd (Some E) N = Inr (Some R)"
    using recursiveAdd_total by blast
  from assms(4) have "map_of R k = Some ov"
    using recursiveAdd_lookup [OF assms(1) R, of k] assms(2,3)
    by (cases ov) auto
  with R show ?thesis by blast
qed

theorem recursiveAdd_nil_discarded_witness:
  "recursiveAdd (Some [(''a'', YMap [(''x'', YScalar ''1'')]), (''b'', YNil)])
     [(''a'', YNil), (''b'', YMap [(''y'', YScalar ''2'')])]
   = Inr (Some [(''a'', YMap [(''x'', YScalar ''1'')]), (''b'', YNil)])"
proof -
  let ?E = "[(''a'', YMap [(''x'', YScalar ''1'')]), (''b'', YNil)]"
  let ?N = "[(''a'', YNil), (''b'', YMap [(''y'', YScalar ''2'')])]"
  have d: "distinct (map fst ?N)" by simp
  have "\<exists>R. recursiveAdd (Some ?E) ?N = Inr (Some R)
      \<and> map_of R ''a'' = Some (YMap [(''x'', YScalar ''1'')])"
    by (rule recursiveAdd_nil_discarded [OF d]) simp_all
  moreover have "\<exists>R. recursiveAdd (Some ?E) ?N = Inr (Some R) \<and> map_of R ''b'' = Some YNil"
    by (rule recursiveAdd_nil_discarded [OF d]) simp_all
  ultimately show ?thesis
    by (simp add: recursiveAdd.simps Contain_def index_def entries_def bothMaps_def)
qed

section \<open>Facts about the route separator\<close>

lemma separateRoutes_none:
  "''routes'' \<notin> fst ` set items \<Longrightarrow> separateRoutes items routeMap vm = (routeMap, vm)"
  by (induction items) auto

lemma separateRoutes_found:
  "distinct (map fst items) \<Longrightarrow> map_of items ''routes'' = Some rv \<Longrightarrow>
   separateRoutes items routeMap vm =
     (AList.update ''routes'' rv routeMap, AList.delete ''routes'' vm)"
proof (induction items)
  case Nil
  then show ?case by simp
next
  case (Cons entry items)
  obtain rk rv' where entry: "entry = (rk, rv')" by (cases entry)
  show ?case
  proof (cases "rk = ''routes''")
    case True
    with Cons.prems entry have "rv' = rv" and "''routes'' \<notin> fst ` set items"
      by auto
    with True entry show ?thesis
      by (simp add: separateRoutes_none)
  next
    case False
    with Cons entry show ?thesis by simp
  qed
qed



lemma separateLoop_none:
  "''zuul'' \<notin> fst ` set items \<Longrightarrow> separateLoop items routeMap gateway = Inr (routeMap, gateway)"
  by (induction items) auto

lemma separateLoop_nil:
  "map_of items ''zuul'' = Some YNil \<Longrightarrow>
   separateLoop items routeMap gateway = Inl NilPointerDereference"
  by (induction items) (auto split: if_splits)

lemma separateLoop_map:
  "distinct (map fst items) \<Longrightarrow> map_of items ''zuul'' = Some (YMap vm) \<Longrightarrow>
   separateLoop items routeMap gateway =
     Inr (fst (separateRoutes vm routeMap vm),
          map_option (AList.update ''zuul'' (YMap (snd (separateRoutes vm routeMap vm)))) gateway)"
proof (induction items)
  case Nil
  then show ?case by simp
next
  case (Cons entry items)
  obtain k v where entry: "entry = (k, v)" by (cases entry)
  show ?case
  proof (cases "k = ''zuul''")
    case True
    with Cons.prems entry have "v = YMap vm" and "''zuul'' \<notin> fst ` set items"
      by auto
    with True entry show ?thesis
      by (simp add: separateLoop_none split: prod.splits)
  next
    case False
    with Cons entry show ?thesis by simp
  qed
qed



text \<open>
  C5, as amended. For a gateway document whose \<^verbatim>\<open>"zuul"\<close> key maps to a mapping that
  contains \<^verbatim>\<open>"routes"\<close> (no key twice in either map), \<^verbatim>\<open>separateRoute\<close> leaves the gateway
  map with \<^verbatim>\<open>"zuul"\<close> still present, bound to its mapping without \<^verbatim>\<open>"routes"\<close> (the empty
  mapping when \<^verbatim>\<open>"routes"\<close> was all it held), serialises that map as the remainder, and
  returns the route mapping \<^verbatim>\<open>{"zuul": {"routes": value}}\<close> and its serialisation.
\<close>

theorem separateRoute_splits_routes:
  assumes "distinct (map fst gateway)"
    and "map_of gateway ''zuul'' = Some (YMap vm)"
    and "distinct (map fst vm)"
    and "map_of vm ''routes'' = Some rv"
  shows "\<exists>remainder. remainder = AList.update ''zuul'' (YMap (AList.delete ''routes'' vm)) gateway
    \<and> separateRoute P (Some gateway) =
        Inr (Some remainder,
          (case Marshal P (Some remainder) of
             Inl err \<Rightarrow> Inl err
           | Inr gb \<Rightarrow>
               (case Marshal P (Some [(''zuul'', YMap [(''routes'', rv)])]) of
                  Inl err \<Rightarrow> Inl err
                | Inr rb \<Rightarrow> Inr (gb, rb, Some [(''zuul'', YMap [(''routes'', rv)])]))))
    \<and> map_of remainder ''zuul'' = Some (YMap (AList.delete ''routes'' vm))
    \<and> map_of (AList.delete ''routes'' vm) ''routes'' = None
    \<and> (\<forall>k. k \<noteq> ''zuul'' \<longrightarrow> map_of remainder k = map_of gateway k)"
proof -
  have "separateRoutes vm [] vm = ([(''routes'', rv)], AList.delete ''routes'' vm)"
    using separateRoutes_found [OF assms(3,4), of "[]" vm] by simp
  with separateLoop_map [OF assms(1,2), of "[]" "Some gateway"]
  have "separateLoop gateway [] (Some gateway) =
      Inr ([(''routes'', rv)],
           Some (AList.update ''zuul'' (YMap (AList.delete ''routes'' vm)) gateway))"
    by simp
  then show ?thesis
    by (simp add: separateRoute_def entries_def Let_def update_conv' delete_conv'
        split: sum.splits)
qed

theorem separateRoute_splits_routes_witness:
  "separateRoute examplePackages
     (Some [(''zuul'', YMap [(''routes'', YMap [(''r1'', YScalar ''/foo'')]),
                             (''other'', YScalar ''keep'')])])
   = Inr (Some [(''zuul'', YMap [(''other'', YScalar ''keep'')])],
          Inr (''zuul: {other: keep}'', ''zuul: {routes: {r1: /foo}}'',
               Some [(''zuul'', YMap [(''routes'', YMap [(''r1'', YScalar ''/foo'')])])]))"
proof -
  let ?vm = "[(''routes'', YMap [(''r1'', YScalar ''/foo'')]), (''other'', YScalar ''keep'')]"
  have "distinct (map fst [(''zuul'', YMap ?vm)])"
    and "map_of [(''zuul'', YMap ?vm)] ''zuul'' = Some (YMap ?vm)"
    and "distinct (map fst ?vm)"
    and "map_of ?vm ''routes'' = Some (YMap [(''r1'', YScalar ''/foo'')])"
    by simp_all
  from separateRoute_splits_routes [OF this, of examplePackages]
  show ?thesis by (simp add: example_defs)
qed

text \<open>
  C5 as stated fails where \<^verbatim>\<open>"routes"\<close> is all that \<^verbatim>\<open>"zuul"\<close> holds: the remainder keeps
  the key \<^verbatim>\<open>"zuul"\<close>, bound to the empty mapping.
\<close>

theorem separateRoute_keeps_empty_zuul:
  "separateRoute examplePackages
     (Some [(''zuul'', YMap [(''routes'', YMap [(''r1'', YScalar ''/foo'')])])])
   = Inr (Some [(''zuul'', YMap [])],
          Inr (''zuul: {}'', ''zuul: {routes: {r1: /foo}}'',
               Some [(''zuul'', YMap [(''routes'', YMap [(''r1'', YScalar ''/foo'')])])]))
   \<and> map_of [(''zuul'', YMap [])] ''zuul'' \<noteq> (None :: string yval option)"
  by (simp add: separateRoute_def example_defs)

text \<open>
  C10. A gateway document whose \<^verbatim>\<open>"zuul"\<close> key maps to nil makes \<^verbatim>\<open>separateRoute\<close> panic:
  line 244 asks \<^verbatim>\<open>reflect.TypeOf(v).Kind()\<close> with no test for nil. A save of the API-gateway
  service with such a document panics before anything is written to the store or to the
  response, instead of answering 500.
\<close>

theorem separateRoute_nil_zuul_panics:
  assumes "map_of gateway ''zuul'' = Some YNil"
  shows "separateRoute P (Some gateway) = Inl NilPointerDereference
    \<and> (validate es dto \<and> Unmarshal P (Yaml dto) = Inr (Some gateway)
         \<and> Service dto = ApiGatewayServiceName P \<longrightarrow>
       Save es P st (Some dto) = Panicked NilPointerDereference st [])"
proof -
  have "separateRoute P (Some gateway) = Inl NilPointerDereference"
    using assms by (simp add: separateRoute_def entries_def separateLoop_nil)
  then show ?thesis by (simp add: Save_def)
qed

theorem separateRoute_nil_zuul_panics_witness:
  "separateRoute examplePackages (Some [(''zuul'', YNil)]) = Inl NilPointerDereference
   \<and> Save exampleService examplePackages [] (Some (exampleDTO ''api-gateway'' UpdatePolicyCover ''zuul:''))
       = Panicked NilPointerDereference [] []"
proof -
  have "map_of [(''zuul'', YNil)] ''zuul'' = Some (YNil :: string yval)" by simp
  from separateRoute_nil_zuul_panics [OF this, of examplePackages exampleService
      "exampleDTO ''api-gateway'' UpdatePolicyCover ''zuul:''" "[]"]
  show ?thesis by (simp add: example_defs)
qed


section \<open>Facts about the update-policy resolver and save\<close>

text \<open>
  C1. A first save under the merge policy: the record does not exist, so it is created;
  line 104 then reads \<^verbatim>\<open>queryConfigMap.Data\<close> through the nil pointer. Whenever the creation
  succeeds the resolver panics there, with the record created and no update made; the
  save does not complete.
\<close>

theorem createOrUpdateConfigMap_first_add_panics:
  assumes "QueryConfigMap (configMapOperator es) st (Service dto) (Namespace dto) = None"
    and "UpdatePolicy dto = UpdatePolicyAdd"
    and "CreateConfigMap (configMapOperator es) st dto = (st', None)"
  shows "createOrUpdateConfigMap es P st dto source resp = Panicked NilPointerDereference st' resp"
  using assms by (simp add: createOrUpdateConfigMap_def mergeStep_def)

theorem createOrUpdateConfigMap_first_add_panics_witness:
  "createOrUpdateConfigMap exampleService examplePackages []
     (exampleDTO ''svc'' UpdatePolicyAdd ''a: {x: 1}'') (Some [(''a'', YMap [(''x'', YScalar ''1'')])]) []
   = Panicked NilPointerDereference
       [((''svc'', ''ns''), \<lparr>Data = [(''application.yml'', ''a: {x: 1}'')], Annotations = []\<rparr>)] []"
proof -
  let ?dto = "exampleDTO ''svc'' UpdatePolicyAdd ''a: {x: 1}''"
  let ?st' = "[((''svc'', ''ns''), \<lparr>Data = [(''application.yml'', ''a: {x: 1}'')], Annotations = []\<rparr>)]"
  have "QueryConfigMap (configMapOperator exampleService) [] (Service ?dto) (Namespace ?dto) = None"
    and "UpdatePolicy ?dto = UpdatePolicyAdd"
    and "CreateConfigMap (configMapOperator exampleService) [] ?dto = (?st', None)"
    by (simp_all add: example_defs)
  from createOrUpdateConfigMap_first_add_panics [OF this]
  show ?thesis .
qed

text \<open>
  C3. When the stored text under the profile-key does not decode, \<^verbatim>\<open>addProperty\<close> returns
  the empty string and a nil error (line 220), so the resolver reports no merge failure:
  it goes on to update the record with an empty document.
\<close>

theorem createOrUpdateConfigMap_undecodable_old_yaml:
  assumes "QueryConfigMap (configMapOperator es) st (Service dto) (Namespace dto) = Some cm"
    and "UpdatePolicy dto = UpdatePolicyAdd"
    and "indexString (Data cm) (ConfigMapProfileKey P (Profile dto)) = oldYaml"
    and "oldYaml \<noteq> []"
    and "Unmarshal P oldYaml = Inl err"
  shows "addProperty P oldYaml source = Inr (Inr [])
    \<and> createOrUpdateConfigMap es P st dto source resp =
        (case UpdateConfigMap (configMapOperator es) st (dto\<lparr>Yaml := []\<rparr>) of
           (st', Some e) \<Rightarrow> Returned st' (resp @ [(500, ''update configMap failed'')])
         | (st', None) \<Rightarrow> Returned st' resp)"
  using assms
  by (simp add: createOrUpdateConfigMap_def mergeStep_def updateStep_def addProperty_def)

theorem createOrUpdateConfigMap_undecodable_old_yaml_witness:
  "createOrUpdateConfigMap exampleService examplePackages
     [((''svc'', ''ns''), exampleRecord ''a: {x: 1'')]
     (exampleDTO ''svc'' UpdatePolicyAdd ''a: {y: 2}'') (Some [(''a'', YMap [(''y'', YScalar ''2'')])]) []
   = Returned [((''svc'', ''ns''), exampleRecord [])] []"
proof -
  let ?dto = "exampleDTO ''svc'' UpdatePolicyAdd ''a: {y: 2}''"
  let ?st = "[((''svc'', ''ns''), exampleRecord ''a: {x: 1'')]"
  have "QueryConfigMap (configMapOperator exampleService) ?st (Service ?dto) (Namespace ?dto)
          = Some (exampleRecord ''a: {x: 1'')"
    and "UpdatePolicy ?dto = UpdatePolicyAdd"
    and "indexString (Data (exampleRecord ''a: {x: 1''))
           (ConfigMapProfileKey examplePackages (Profile ?dto)) = ''a: {x: 1''"
    and "''a: {x: 1'' \<noteq> []"
    and "Unmarshal examplePackages ''a: {x: 1'' = Inl ''yaml: cannot unmarshal''"
    by (simp_all add: example_defs indexString_def)
  from createOrUpdateConfigMap_undecodable_old_yaml [OF this]
  show ?thesis by (simp add: example_defs)
qed

text \<open>
  C7, as amended. Under the reject policy, the resolver called on a request whose record
  exists writes 304, calls neither create nor update and returns the store as it was. A
  whole \<^verbatim>\<open>Save\<close> of a valid, decodable request therefore leaves the store unchanged when
  the service is not the API-gateway service, and also when it is and the route record
  exists as well (both saves are then rejected).
\<close>

theorem reject_if_exists_leaves_store:
  assumes "UpdatePolicy dto = UpdatePolicyNot"
    and "QueryConfigMap (configMapOperator es) st (Service dto) (Namespace dto) = Some cm"
  shows "createOrUpdateConfigMap es P st dto source resp =
        Returned st (resp @ [(304, ''configMap is already exist'')])
    \<and> (validate es dto \<and> Unmarshal P (Yaml dto) = Inr source
         \<and> Service dto \<noteq> ApiGatewayServiceName P \<longrightarrow>
       Save es P st (Some dto) = Returned st [(304, ''configMap is already exist'')])
    \<and> (validate es dto \<and> Unmarshal P (Yaml dto) = Inr source
         \<and> Service dto = ApiGatewayServiceName P
         \<and> separateRoute P source = Inr (remainder, Inr (gb, rb, rm))
         \<and> QueryConfigMap (configMapOperator es) st (RouteConfigMap P) (Namespace dto)
             = Some routeRecord \<longrightarrow>
       Save es P st (Some dto) =
         Returned st [(304, ''configMap is already exist''), (304, ''configMap is already exist'')])"
proof -
  have resolver: "createOrUpdateConfigMap es P st d src r =
      Returned st (r @ [(304, ''configMap is already exist'')])"
    if "UpdatePolicy d = UpdatePolicyNot"
      and "QueryConfigMap (configMapOperator es) st (Service d) (Namespace d) = Some c"
    for d :: SaveConfigDTO and src :: "'b document" and r c
    using that by (simp add: createOrUpdateConfigMap_def)
  have own: "createOrUpdateConfigMap es P st (dto\<lparr>Yaml := y\<rparr>) src r =
      Returned st (r @ [(304, ''configMap is already exist'')])" for y src r
    using resolver [of "dto\<lparr>Yaml := y\<rparr>" cm src r] assms by simp
  have plain: "Save es P st (Some dto) = Returned st [(304, ''configMap is already exist'')]"
    if "validate es dto" "Unmarshal P (Yaml dto) = Inr source"
      "Service dto \<noteq> ApiGatewayServiceName P"
    using that resolver [OF assms, of source "[]"] by (simp add: Save_def)
  have gateway: "Save es P st (Some dto) =
      Returned st [(304, ''configMap is already exist''), (304, ''configMap is already exist'')]"
    if "validate es dto" "Unmarshal P (Yaml dto) = Inr source"
      "Service dto = ApiGatewayServiceName P"
      "separateRoute P source = Inr (remainder, Inr (gb, rb, rm))"
      "QueryConfigMap (configMapOperator es) st (RouteConfigMap P) (Namespace dto) = Some routeRecord"
  proof -
    let ?routeDTO = "\<lparr>Service = RouteConfigMap P, Version = Version dto,
                      Profile = DefaultProfile P, Namespace = Namespace dto,
                      UpdatePolicy = UpdatePolicy dto, Yaml = rb\<rparr>"
    have "createOrUpdateConfigMap es P st ?routeDTO rm [] =
        Returned st [(304, ''configMap is already exist'')]"
      using resolver [of ?routeDTO routeRecord rm "[]"] assms(1) that(5) by simp
    with that own [of gb remainder "[(304, ''configMap is already exist'')]"]
    show ?thesis by (simp add: Save_def)
  qed
  from resolver [OF assms] plain gateway show ?thesis by blast
qed

theorem reject_if_exists_leaves_store_witness:
  "createOrUpdateConfigMap exampleService examplePackages
       [((''svc'', ''ns''), exampleRecord ''a: {x: 1}'')]
       (exampleDTO ''svc'' UpdatePolicyNot ''a: {y: 2}'') (Some [(''a'', YMap [(''y'', YScalar ''2'')])]) []
     = Returned [((''svc'', ''ns''), exampleRecord ''a: {x: 1}'')]
         [(304, ''configMap is already exist'')]
   \<and> Save exampleService examplePackages [((''svc'', ''ns''), exampleRecord ''a: {x: 1}'')]
       (Some (exampleDTO ''svc'' UpdatePolicyNot ''a: {y: 2}''))
     = Returned [((''svc'', ''ns''), exampleRecord ''a: {x: 1}'')]
         [(304, ''configMap is already exist'')]
   \<and> Save exampleService examplePackages
       [((''api-gateway'', ''ns''), exampleRecord ''zuul: {}''),
        ((''zuul-route'', ''ns''), exampleRecord ''zuul: {routes: {b: 2}}'')]
       (Some (exampleDTO ''api-gateway'' UpdatePolicyNot ''zuul: {routes: {r1: /foo}}''))
     = Returned [((''api-gateway'', ''ns''), exampleRecord ''zuul: {}''),
                 ((''zuul-route'', ''ns''), exampleRecord ''zuul: {routes: {b: 2}}'')]
         [(304, ''configMap is already exist''), (304, ''configMap is already exist'')]"
proof -
  let ?dto = "exampleDTO ''svc'' UpdatePolicyNot ''a: {y: 2}''"
  let ?st = "[((''svc'', ''ns''), exampleRecord ''a: {x: 1}'')]"
  let ?src = "Some [(''a'', YMap [(''y'', YScalar ''2'')])]"
  have p: "UpdatePolicy ?dto = UpdatePolicyNot"
    and q: "QueryConfigMap (configMapOperator exampleService) ?st (Service ?dto) (Namespace ?dto)
          = Some (exampleRecord ''a: {x: 1}'')"
    by (simp_all add: example_defs)
  have plain: "validate exampleService ?dto \<and> Unmarshal examplePackages (Yaml ?dto) = Inr ?src
      \<and> Service ?dto \<noteq> ApiGatewayServiceName examplePackages"
    by (simp add: example_defs)
  let ?gdto = "exampleDTO ''api-gateway'' UpdatePolicyNot ''zuul: {routes: {r1: /foo}}''"
  let ?gst = "[((''api-gateway'', ''ns''), exampleRecord ''zuul: {}''),
               ((''zuul-route'', ''ns''), exampleRecord ''zuul: {routes: {b: 2}}'')]"
  let ?gsrc = "Some [(''zuul'', YMap [(''routes'', YMap [(''r1'', YScalar ''/foo'')])])]"
  have gp: "UpdatePolicy ?gdto = UpdatePolicyNot"
    and gq: "QueryConfigMap (configMapOperator exampleService) ?gst (Service ?gdto) (Namespace ?gdto)
          = Some (exampleRecord ''zuul: {}'')"
    by (simp_all add: example_defs)
  have gateway: "validate exampleService ?gdto \<and> Unmarshal examplePackages (Yaml ?gdto) = Inr ?gsrc
      \<and> Service ?gdto = ApiGatewayServiceName examplePackages
      \<and> separateRoute examplePackages ?gsrc =
          Inr (Some [(''zuul'', YMap [])],
               Inr (''zuul: {}'', ''zuul: {routes: {r1: /foo}}'', ?gsrc))
      \<and> QueryConfigMap (configMapOperator exampleService) ?gst (RouteConfigMap examplePackages)
            (Namespace ?gdto) = Some (exampleRecord ''zuul: {routes: {b: 2}}'')"
    by (simp add: example_defs separateRoute_def)
  note plain_case = reject_if_exists_leaves_store [OF p q, where P = examplePackages
      and source = ?src and resp = "[]"]
  note gateway_case = reject_if_exists_leaves_store [OF gp gq, where P = examplePackages
      and source = ?gsrc and resp = "[]" and remainder = "Some [(''zuul'', YMap [])]"
      and gb = "''zuul: {}''" and rb = "''zuul: {routes: {r1: /foo}}''" and rm = ?gsrc
      and routeRecord = "exampleRecord ''zuul: {routes: {b: 2}}''"]
  from plain_case have "createOrUpdateConfigMap exampleService examplePackages ?st ?dto ?src []
      = Returned ?st [(304, ''configMap is already exist'')]"
    by simp
  moreover from plain_case plain have "Save exampleService examplePackages ?st (Some ?dto)
      = Returned ?st [(304, ''configMap is already exist'')]"
    by blast
  moreover from gateway_case gateway have "Save exampleService examplePackages ?gst (Some ?gdto)
      = Returned ?gst [(304, ''configMap is already exist''), (304, ''configMap is already exist'')]"
    by blast
  ultimately show ?thesis by blast
qed

text \<open>
  C7 as stated fails for a save of the API-gateway service whose route record does not
  exist yet: the gateway's own save is rejected with 304, but the route record has been
  created before, so the store is not as it was.
\<close>

theorem Save_reject_creates_route_record:
  "Save exampleService examplePackages [((''api-gateway'', ''ns''), exampleRecord ''zuul: {}'')]
     (Some (exampleDTO ''api-gateway'' UpdatePolicyNot ''zuul: {routes: {r1: /foo}}''))
   = Returned
       [((''api-gateway'', ''ns''), exampleRecord ''zuul: {}''),
        ((''zuul-route'', ''ns''),
         \<lparr>Data = [(''application.yml'', ''zuul: {routes: {r1: /foo}}'')], Annotations = []\<rparr>)]
       [(304, ''configMap is already exist'')]"
  by (simp add: example_defs service_defs)









section \<open>Facts about the poll assembler\<close>

lemma deleteRoutes_lookup:
  "map_of (deleteRoutes items kvMap) k =
     (if prefix ''zuul.routes.'' k \<and> map_of items k \<noteq> None then None else map_of kvMap k)"
  by (induction items arbitrary: kvMap) (auto simp add: delete_conv')

lemma putAll_lookup:
  "distinct (map fst items) \<Longrightarrow>
   map_of (putAll items kvMap) k =
     (case map_of items k of Some v \<Rightarrow> Some v | None \<Rightarrow> map_of kvMap k)"
proof (induction items arbitrary: kvMap)
  case Nil
  then show ?case by simp
next
  case (Cons entry items)
  obtain a v where entry: "entry = (a, v)" by (cases entry)
  with Cons.prems have "map_of items a = None" and "distinct (map fst items)"
    by (simp_all add: map_of_eq_None_iff)
  with Cons.IH [of "AList.update a v kvMap"] entry show ?case
    by (auto simp add: update_conv' split: option.splits)
qed

lemma gatewayOverlay_lookup:
  "distinct (map fst routeMap) \<Longrightarrow>
   map_of (gatewayOverlay kvMap routeMap) k =
     (case map_of routeMap k of
        Some v \<Rightarrow> Some v
      | None \<Rightarrow> if prefix ''zuul.routes.'' k then None else map_of kvMap k)"
  by (auto simp add: gatewayOverlay_def putAll_lookup deleteRoutes_lookup split: option.splits)

text \<open>
  C6. A poll of a gateway-class service that succeeds: of the service's own flattened
  properties those whose key starts with \<^verbatim>\<open>zuul.routes.\<close> are deleted, and every flattened
  property of the route record is then written on top, so that under each key the route
  record's value wins, a local route key is absent, and any other local key is kept. The
  static additions are written over the result afterwards. (The two flattened maps of
  the poll are named by the third and fourth hypothesis; as Go maps, the route map and
  the additions have no key twice.)
\<close>

theorem Poll_gateway_overlay:
  assumes "Poll es P st service version = Inr env"
    and "isGateway P service"
    and "getConfigFromConfigMap es P st service version = Inr (kvMap, configMapVersion)"
    and "getConfigFromConfigMap es P st (RouteConfigMap P) version = Inr (routeMap, routeVersion)"
    and "distinct (map fst routeMap)"
    and "distinct (map fst (ConfigServerAdditions P))"
  shows "\<exists>ps. PropertySources env = [ps]
    \<and> Source ps = appendConfigServerAddition P (gatewayOverlay kvMap routeMap)
    \<and> (\<forall>k. map_of (gatewayOverlay kvMap routeMap) k =
          (case map_of routeMap k of
             Some v \<Rightarrow> Some v
           | None \<Rightarrow> if prefix ''zuul.routes.'' k then None else map_of kvMap k))
    \<and> (\<forall>k. map_of (Source ps) k =
          (case map_of (ConfigServerAdditions P) k of
             Some a \<Rightarrow> Some a
           | None \<Rightarrow> map_of (gatewayOverlay kvMap routeMap) k))"
proof -
  let ?ps = "\<lparr>PropertySourceName = service @ ''-'' @ version @ ''-'' @ configMapVersion,
              Source = appendConfigServerAddition P (gatewayOverlay kvMap routeMap)\<rparr>"
  from assms(1-4) have "PropertySources env = [?ps]"
    by (auto simp add: Poll_def split: if_splits)
  moreover have "map_of (Source ?ps) k =
      (case map_of (ConfigServerAdditions P) k of
         Some a \<Rightarrow> Some a
       | None \<Rightarrow> map_of (gatewayOverlay kvMap routeMap) k)" for k
    using assms(6) by (simp add: appendConfigServerAddition_def putAll_lookup)
  ultimately show ?thesis
    using gatewayOverlay_lookup [OF assms(5)] by auto
qed

theorem Poll_gateway_overlay_witness:
  "\<exists>env ps. Poll exampleService examplePackages
        [((''api-gateway'', ''ns''), exampleRecord ''{zuul: {routes: {a: 1}}, port: 8080}''),
         ((''zuul-route'', ''ns''), exampleRecord ''zuul: {routes: {b: 2}}'')]
        ''api-gateway'' ''default'' = Inr env
     \<and> PropertySources env = [ps]
     \<and> map_of (Source ps) ''zuul.routes.a'' = None
     \<and> map_of (Source ps) ''zuul.routes.b'' = Some (YScalar ''2'')
     \<and> map_of (Source ps) ''port'' = Some (YScalar ''8080'')"
proof -
  let ?st = "[((''api-gateway'', ''ns''), exampleRecord ''{zuul: {routes: {a: 1}}, port: 8080}''),
              ((''zuul-route'', ''ns''), exampleRecord ''zuul: {routes: {b: 2}}'')]"
  let ?kv = "[(''zuul.routes.a'', YScalar ''1''), (''port'', YScalar ''8080'')]"
  let ?rm = "[(''zuul.routes.b'', YScalar ''2'')]"
  let ?env = "\<lparr>Name = ''api-gateway'', EnvironmentVersion = ''1.0'', Profiles = [''default''],
      PropertySources =
        [\<lparr>PropertySourceName = ''api-gateway-default-1.0'',
          Source = [(''port'', YScalar ''8080''), (''zuul.routes.b'', YScalar ''2''),
                    (''spring.cloud.config.failFast'', YScalar ''true'')]\<rparr>]\<rparr>"
  have poll: "Poll exampleService examplePackages ?st ''api-gateway'' ''default'' = Inr ?env"
    by (simp add: example_defs service_defs)
  have gw: "isGateway examplePackages ''api-gateway''"
    by (simp add: example_defs isGateway_def)
  have own: "getConfigFromConfigMap exampleService examplePackages ?st ''api-gateway'' ''default''
      = Inr (?kv, ''1.0'')"
    by (simp add: example_defs getConfigFromConfigMap_def indexString_def)
  have route: "getConfigFromConfigMap exampleService examplePackages ?st
      (RouteConfigMap examplePackages) ''default'' = Inr (?rm, ''1.0'')"
    by (simp add: example_defs getConfigFromConfigMap_def indexString_def)
  have d: "distinct (map fst ?rm)"
    and da: "distinct (map fst (ConfigServerAdditions examplePackages))"
    by (simp_all add: example_defs)
  from Poll_gateway_overlay [OF poll gw own route d da] obtain ps where
    ps: "PropertySources ?env = [ps]"
    and overlay: "\<And>k. map_of (gatewayOverlay ?kv ?rm) k =
          (case map_of ?rm k of
             Some v \<Rightarrow> Some v
           | None \<Rightarrow> if prefix ''zuul.routes.'' k then None else map_of ?kv k)"
    and final: "\<And>k. map_of (Source ps) k =
          (case map_of (ConfigServerAdditions examplePackages) k of
             Some a \<Rightarrow> Some a
           | None \<Rightarrow> map_of (gatewayOverlay ?kv ?rm) k)"
    by blast
  have "map_of (Source ps) ''zuul.routes.a'' = None"
    using final [of "''zuul.routes.a''"] overlay [of "''zuul.routes.a''"]
    by (simp add: example_defs)
  moreover have "map_of (Source ps) ''zuul.routes.b'' = Some (YScalar ''2'')"
    using final [of "''zuul.routes.b''"] overlay [of "''zuul.routes.b''"]
    by (simp add: example_defs)
  moreover have "map_of (Source ps) ''port'' = Some (YScalar ''8080'')"
    using final [of "''port''"] overlay [of "''port''"]
    by (simp add: example_defs)
  ultimately show ?thesis using poll ps by blast
qed

text \<open>
  C8. For a poll with a service and a version (an empty one is answered 400 before any
  lookup): when the record of the service is absent the poll answers 404, and when the
  service is gateway-class and the route record is absent the poll answers 404 as well.
  In both cases the response is the error alone: no environment is written.
\<close>

theorem Poll_not_found:
  assumes "service \<noteq> []" and "version \<noteq> []"
  shows "(QueryConfigMapByName (configMapOperator es) st service = None \<longrightarrow>
        Poll es P st service version = Inl (404, ''can't find correct configMap''))
    \<and> (isGateway P service
         \<and> QueryConfigMapByName (configMapOperator es) st (RouteConfigMap P) = None \<longrightarrow>
        (\<exists>msg. Poll es P st service version = Inl (404, msg)))"
  using assms
  by (auto simp add: Poll_def getConfigFromConfigMap_def Let_def split: option.splits sum.splits)

theorem Poll_not_found_witness:
  "Poll exampleService examplePackages [] ''svc'' ''default''
     = Inl (404, ''can't find correct configMap'')
   \<and> Poll exampleService examplePackages
       [((''api-gateway'', ''ns''), exampleRecord ''zuul: {}'')] ''api-gateway'' ''default''
     = Inl (404, ''can't find zuul-route configMap'')"
proof -
  let ?st = "[((''api-gateway'', ''ns''), exampleRecord ''zuul: {}'')]"
  have absent: "QueryConfigMapByName (configMapOperator exampleService) [] ''svc'' = None"
    by (simp add: example_defs)
  have route_absent: "isGateway examplePackages ''api-gateway''
      \<and> QueryConfigMapByName (configMapOperator exampleService) ?st
            (RouteConfigMap examplePackages) = None"
    by (simp add: example_defs isGateway_def)
  have "Poll exampleService examplePackages [] ''svc'' ''default''
      = Inl (404, ''can't find correct configMap'')"
    using Poll_not_found [of "''svc''" "''default''" exampleService "[]" examplePackages] absent
    by simp
  moreover have "\<exists>msg. Poll exampleService examplePackages ?st ''api-gateway'' ''default''
      = Inl (404, msg)"
    using Poll_not_found [of "''api-gateway''" "''default''" exampleService ?st examplePackages]
      route_absent
    by simp
  then have "Poll exampleService examplePackages ?st ''api-gateway'' ''default''
      = Inl (404, ''can't find zuul-route configMap'')"
    by (simp add: example_defs service_defs)
  ultimately show ?thesis by blast
qed

end
